theory Spec2Isabelle
  imports Complex_Main "HOL-Library.Char_ord" "HOL-Library.List_Lexorder"
begin

section \<open>Python values, exceptions and the transport\<close>

text \<open>
  Values decoded from JSON (and the values stored in the fields of an exception).
  \<open>JNull\<close> is Python's \<open>None\<close>; a decoded object is a dict, kept as the list of its
  items in insertion order.
\<close>

datatype json =
    JNull
  | JBool bool
  | JNum int
  | JStr string
  | JArr "json list"
  | JObj "(string \<times> json) list"

text \<open>\<open>d.get(k, default)\<close> on a dict.\<close>

definition dict_get :: "(string \<times> json) list \<Rightarrow> string \<Rightarrow> json \<Rightarrow> json" where
  "dict_get d k dflt = (case map_of d k of None \<Rightarrow> dflt | Some v \<Rightarrow> v)"

text \<open>
  An exception raised by the HTTP library. The handlers of the client only test class
  membership (\<open>except C\<close>) and format \<open>str(e)\<close>, so an exception is the list of the
  classes it is an instance of and its text. The classes are those the two clients name:
  \<open>requests.exceptions.RequestException\<close>, \<open>json.JSONDecodeError\<close>,
  \<open>aiohttp.ClientError\<close>, \<open>aiohttp.ContentTypeError\<close>.
\<close>

datatype exn_class = RequestException | JSONDecodeError | ClientError | ContentTypeError

record pyexn =
  classes :: "exn_class list"
  exn_str :: string

definition isinstance :: "pyexn \<Rightarrow> exn_class \<Rightarrow> bool" where
  "isinstance e c = (c \<in> set (classes e))"

text \<open>The fields of \<open>FortitudeAPIError\<close>; an argument left out is \<open>None\<close>.\<close>

record api_error =
  message :: json
  error_code :: json
  status_code :: "int option"
  request_id :: json
  details :: json

datatype pyerror =
    FortitudeAPIError api_error
  | AttributeError
  | RuntimeError string
  | ValueError string
  | LibError pyexn

text \<open>
  A response object: its status, its raw text, and what \<open>response.json()\<close> does
  (returns the decoded value or raises).
\<close>

record response =
  status :: int
  raw_text :: string
  json_body :: "pyexn + json"

text \<open>One dispatch to the session either raises or yields a response.\<close>

datatype outcome = Raises pyexn | Responds response

text \<open>
  The world a client runs in: the outcome of the n-th dispatch to the session and the
  value of the n-th reading of \<open>time.time()\<close> (clock readings as real numbers).
\<close>

record world =
  outcomes :: "nat \<Rightarrow> outcome"
  clock :: "nat \<Rightarrow> real"

text \<open>
  Library functions the client calls and this development does not fix: \<open>urljoin\<close>,
  the writer of JSON string literals, and \<open>int(s)\<close> on a string (the number, or the
  \<open>ValueError\<close> it raises).
\<close>

record library =
  urljoin :: "string \<Rightarrow> string \<Rightarrow> string"
  encode_basestring :: "string \<Rightarrow> string"
  int_of_str :: "string \<Rightarrow> pyerror + int"

section \<open>Strings\<close>

definition digit_char :: "nat \<Rightarrow> char" where
  "digit_char d = ''0123456789'' ! d"

fun str_nat :: "nat \<Rightarrow> string" where
  "str_nat n = (if n < 10 then [digit_char n] else str_nat (n div 10) @ [digit_char (n mod 10)])"

declare str_nat.simps [simp del]

text \<open>\<open>str(n)\<close> of an int, as an f-string formats it.\<close>

definition str_int :: "int \<Rightarrow> string" where
  "str_int i = (if i < 0 then CHR ''-'' # str_nat (nat (- i)) else str_nat (nat i))"

text \<open>\<open>sep.join(xs)\<close>.\<close>

fun join :: "string \<Rightarrow> string list \<Rightarrow> string" where
  "join sep [] = []"
| "join sep [x] = x"
| "join sep (x # y # ys) = x @ sep @ join sep (y # ys)"

text \<open>\<open>s.rstrip(c)\<close> for a single character.\<close>

definition rstrip :: "char \<Rightarrow> string \<Rightarrow> string" where
  "rstrip c s = rev (dropWhile (\<lambda>x. x = c) (rev s))"

section \<open>The cache key\<close>

text \<open>
  \<open>json.dumps(v, sort_keys=True)\<close> with the default separators: the items of every
  dict are sorted by key. String literals are written by the library's
  \<open>encode_basestring\<close>.
\<close>

fun dumps :: "(string \<Rightarrow> string) \<Rightarrow> json \<Rightarrow> string" where
  "dumps enc JNull = ''null''"
| "dumps enc (JBool b) = (if b then ''true'' else ''false'')"
| "dumps enc (JNum n) = str_int n"
| "dumps enc (JStr s) = enc s"
| "dumps enc (JArr xs) = ''['' @ join '', '' (map (dumps enc) xs) @ '']''"
| "dumps enc (JObj kvs) =
     ''{'' @ join '', '' (map (\<lambda>(k, s). enc k @ '': '' @ s)
                          (sort_key fst (map (\<lambda>(k, v). (k, dumps enc v)) kvs))) @ ''}''"

section \<open>The synchronous client\<close>

record client =
  api_key :: string
  base_url :: string
  timeout :: int
  max_retries :: int
  enable_cache :: bool
  cache_ttl :: real

record cache_entry =
  data :: json
  timestamp :: real

text \<open>
  What a call can change: the cache of the client, the number of dispatches made to the
  session, the number of clock readings taken, and the delays slept, in order.
\<close>

record state =
  cache :: "string \<rightharpoonup> cache_entry"
  sent :: nat
  ticks :: nat
  slept :: "int list"

text \<open>\<open>f"{method}:{url}:{json.dumps(params or {}, sort_keys=True)}"\<close>\<close>

definition cache_key ::
  "library \<Rightarrow> client \<Rightarrow> string \<Rightarrow> string \<Rightarrow> (string \<times> json) list option \<Rightarrow> string" where
  "cache_key lib c method endpoint params =
     method @ '':'' @ urljoin lib (base_url c) endpoint @ '':'' @
     dumps (encode_basestring lib) (JObj (case params of None \<Rightarrow> [] | Some p \<Rightarrow> p))"

text \<open>\<open>range(n)\<close>\<close>

definition py_range :: "int \<Rightarrow> int list" where
  "py_range n = map int [0..<nat n]"

text \<open>\<open>delay = 2 ** attempt; time.sleep(delay)\<close>\<close>

definition backoff :: "int \<Rightarrow> state \<Rightarrow> state" where
  "backoff attempt st = st\<lparr>slept := slept st @ [2 ^ nat attempt]\<rparr>"

definition transient_statuses :: "int list" where
  "transient_statuses = [429, 500, 502, 503, 504]"

text \<open>How one iteration of the attempt loop ends when it does not raise.\<close>

datatype flow = Return json | Continue

text \<open>
  The inner \<open>try\<close> of an iteration (lines 128 to 141): it always raises. A body that is
  not a dict has no \<open>get\<close>.
\<close>

definition raise_for_response :: "response \<Rightarrow> pyerror" where
  "raise_for_response r =
     (case json_body r of
        Inl e \<Rightarrow>
          if isinstance e JSONDecodeError
          then FortitudeAPIError \<lparr>message = JStr (''HTTP '' @ str_int (status r) @ '': '' @ raw_text r),
                 error_code = JNull, status_code = Some (status r),
                 request_id = JNull, details = JNull\<rparr>
          else LibError e
      | Inr (JObj error_data) \<Rightarrow>
          FortitudeAPIError \<lparr>message = dict_get error_data ''message'' (JStr ''Unknown error''),
            error_code = dict_get error_data ''error_code'' JNull,
            status_code = Some (status r),
            request_id = dict_get error_data ''request_id'' JNull,
            details = dict_get error_data ''details'' JNull\<rparr>
      | Inr _ \<Rightarrow> AttributeError)"

text \<open>The body of the outer \<open>try\<close> (lines 99 to 141).\<close>

definition attempt_try ::
  "client \<Rightarrow> world \<Rightarrow> string \<Rightarrow> bool \<Rightarrow> int \<Rightarrow> state \<Rightarrow> (pyerror + flow) \<times> state" where
  "attempt_try c w key store attempt st =
     (let st1 = st\<lparr>sent := Suc (sent st)\<rparr> in
      case outcomes w (sent st) of
        Raises e \<Rightarrow> (Inl (LibError e), st1)
      | Responds r \<Rightarrow>
          if status r = 200 then
            (case json_body r of
               Inl e \<Rightarrow> (Inl (LibError e), st1)
             | Inr result \<Rightarrow>
                 (Inr (Return result),
                  if store
                  then st1\<lparr>cache := (cache st1)(key \<mapsto> \<lparr>data = result, timestamp = clock w (ticks st1)\<rparr>),
                           ticks := Suc (ticks st1)\<rparr>
                  else st1))
          else if status r \<in> set transient_statuses \<and> attempt < max_retries c
          then (Inr Continue, backoff attempt st1)
          else (Inl (raise_for_response r), st1))"

text \<open>\<open>except requests.exceptions.RequestException as e\<close> (lines 143 to 149).\<close>

definition is_RequestException :: "pyerror \<Rightarrow> bool" where
  "is_RequestException err = (case err of LibError e \<Rightarrow> isinstance e RequestException | _ \<Rightarrow> False)"

definition str_of_error :: "pyerror \<Rightarrow> string" where
  "str_of_error err = (case err of LibError e \<Rightarrow> exn_str e | _ \<Rightarrow> [])"

definition request_failed :: "pyerror \<Rightarrow> pyerror" where
  "request_failed err =
     FortitudeAPIError \<lparr>message = JStr (''Request failed: '' @ str_of_error err),
       error_code = JNull, status_code = None, request_id = JNull, details = JNull\<rparr>"

definition attempt_iter ::
  "client \<Rightarrow> world \<Rightarrow> string \<Rightarrow> bool \<Rightarrow> int \<Rightarrow> state \<Rightarrow> (pyerror + flow) \<times> state" where
  "attempt_iter c w key store attempt st =
     (case attempt_try c w key store attempt st of
        (Inl err, st1) \<Rightarrow>
          if is_RequestException err then
            (if attempt < max_retries c then (Inr Continue, backoff attempt st1)
             else (Inl (request_failed err), st1))
          else (Inl err, st1)
      | (Inr f, st1) \<Rightarrow> (Inr f, st1))"

text \<open>
  \<open>for attempt in range(...)\<close>: \<open>None\<close> when the loop runs to its end, otherwise the
  value returned or the exception raised from inside it.
\<close>

fun attempt_loop ::
  "client \<Rightarrow> world \<Rightarrow> string \<Rightarrow> bool \<Rightarrow> int list \<Rightarrow> state \<Rightarrow> (pyerror + json) option \<times> state" where
  "attempt_loop c w key store [] st = (None, st)"
| "attempt_loop c w key store (attempt # rest) st =
     (case attempt_iter c w key store attempt st of
        (Inl err, st1) \<Rightarrow> (Some (Inl err), st1)
      | (Inr (Return result), st1) \<Rightarrow> (Some (Inr result), st1)
      | (Inr Continue, st1) \<Rightarrow> attempt_loop c w key store rest st1)"

definition max_retries_exceeded :: pyerror where
  "max_retries_exceeded =
     FortitudeAPIError \<lparr>message = JStr ''Max retries exceeded'', error_code = JNull,
       status_code = None, request_id = JNull, details = JNull\<rparr>"

text \<open>
  The cache check at the head of \<open>_make_request\<close> (lines 91 to 95): the stored data on a
  live hit. The clock is read only when the key is in the cache.
\<close>

definition cache_check ::
  "client \<Rightarrow> world \<Rightarrow> string \<Rightarrow> bool \<Rightarrow> state \<Rightarrow> json option \<times> state" where
  "cache_check c w key store st =
     (if store then
        (case cache st key of
           None \<Rightarrow> (None, st)
         | Some cache_entry \<Rightarrow>
             (if clock w (ticks st) - timestamp cache_entry < cache_ttl c
              then Some (data cache_entry) else None,
              st\<lparr>ticks := Suc (ticks st)\<rparr>))
      else (None, st))"

text \<open>\<open>FortitudeClient._make_request\<close>\<close>

definition make_request ::
  "library \<Rightarrow> client \<Rightarrow> world \<Rightarrow> string \<Rightarrow> string \<Rightarrow> json option \<Rightarrow>
   (string \<times> json) list option \<Rightarrow> bool \<Rightarrow> state \<Rightarrow> (pyerror + json) \<times> state" where
  "make_request lib c w method endpoint body params use_cache st =
     (let key = cache_key lib c method endpoint params;
          store = (use_cache \<and> enable_cache c \<and> method = ''GET'')
      in case cache_check c w key store st of
           (Some hit, st0) \<Rightarrow> (Inr hit, st0)
         | (None, st0) \<Rightarrow>
             (case attempt_loop c w key store (py_range (max_retries c + 1)) st0 of
                (Some res, st1) \<Rightarrow> (res, st1)
              | (None, st1) \<Rightarrow> (Inl max_retries_exceeded, st1)))"

section \<open>The asynchronous client\<close>

text \<open>
  \<open>AsyncFortitudeClient\<close> has the same configuration and cache; \<open>session\<close> says
  whether \<open>self._session\<close> has been set (by \<open>__aenter__\<close>).
\<close>

record async_client = client +
  session :: bool

text \<open>The inner \<open>try\<close> of the asynchronous loop (lines 342 to 356).\<close>

definition async_raise_for_response :: "response \<Rightarrow> pyerror" where
  "async_raise_for_response r =
     (case json_body r of
        Inl e \<Rightarrow>
          if isinstance e ContentTypeError
          then FortitudeAPIError \<lparr>message = JStr (''HTTP '' @ str_int (status r) @ '': '' @ raw_text r),
                 error_code = JNull, status_code = Some (status r),
                 request_id = JNull, details = JNull\<rparr>
          else LibError e
      | Inr (JObj error_data) \<Rightarrow>
          FortitudeAPIError \<lparr>message = dict_get error_data ''message'' (JStr ''Unknown error''),
            error_code = dict_get error_data ''error_code'' JNull,
            status_code = Some (status r),
            request_id = dict_get error_data ''request_id'' JNull,
            details = dict_get error_data ''details'' JNull\<rparr>
      | Inr _ \<Rightarrow> AttributeError)"

text \<open>The body of the outer \<open>try\<close> (lines 315 to 356).\<close>

definition async_attempt_try ::
  "async_client \<Rightarrow> world \<Rightarrow> string \<Rightarrow> bool \<Rightarrow> int \<Rightarrow> state \<Rightarrow> (pyerror + flow) \<times> state" where
  "async_attempt_try c w key store attempt st =
     (let st1 = st\<lparr>sent := Suc (sent st)\<rparr> in
      case outcomes w (sent st) of
        Raises e \<Rightarrow> (Inl (LibError e), st1)
      | Responds r \<Rightarrow>
          if status r = 200 then
            (case json_body r of
               Inl e \<Rightarrow> (Inl (LibError e), st1)
             | Inr result \<Rightarrow>
                 (Inr (Return result),
                  if store
                  then st1\<lparr>cache := (cache st1)(key \<mapsto> \<lparr>data = result, timestamp = clock w (ticks st1)\<rparr>),
                           ticks := Suc (ticks st1)\<rparr>
                  else st1))
          else if status r \<in> set transient_statuses \<and> attempt < max_retries c
          then (Inr Continue, backoff attempt st1)
          else (Inl (async_raise_for_response r), st1))"

text \<open>\<open>except aiohttp.ClientError as e\<close> (lines 358 to 364).\<close>

definition is_ClientError :: "pyerror \<Rightarrow> bool" where
  "is_ClientError err = (case err of LibError e \<Rightarrow> isinstance e ClientError | _ \<Rightarrow> False)"

definition async_attempt_iter ::
  "async_client \<Rightarrow> world \<Rightarrow> string \<Rightarrow> bool \<Rightarrow> int \<Rightarrow> state \<Rightarrow> (pyerror + flow) \<times> state" where
  "async_attempt_iter c w key store attempt st =
     (case async_attempt_try c w key store attempt st of
        (Inl err, st1) \<Rightarrow>
          if is_ClientError err then
            (if attempt < max_retries c then (Inr Continue, backoff attempt st1)
             else (Inl (request_failed err), st1))
          else (Inl err, st1)
      | (Inr f, st1) \<Rightarrow> (Inr f, st1))"

fun async_attempt_loop ::
  "async_client \<Rightarrow> world \<Rightarrow> string \<Rightarrow> bool \<Rightarrow> int list \<Rightarrow> state \<Rightarrow> (pyerror + json) option \<times> state" where
  "async_attempt_loop c w key store [] st = (None, st)"
| "async_attempt_loop c w key store (attempt # rest) st =
     (case async_attempt_iter c w key store attempt st of
        (Inl err, st1) \<Rightarrow> (Some (Inl err), st1)
      | (Inr (Return result), st1) \<Rightarrow> (Some (Inr result), st1)
      | (Inr Continue, st1) \<Rightarrow> async_attempt_loop c w key store rest st1)"

text \<open>\<open>AsyncFortitudeClient._make_request\<close>\<close>

definition async_make_request ::
  "library \<Rightarrow> async_client \<Rightarrow> world \<Rightarrow> string \<Rightarrow> string \<Rightarrow> json option \<Rightarrow>
   (string \<times> json) list option \<Rightarrow> bool \<Rightarrow> state \<Rightarrow> (pyerror + json) \<times> state" where
  "async_make_request lib c w method endpoint body params use_cache st =
     (if \<not> session c
      then (Inl (RuntimeError ''Client not initialized. Use 'async with' statement.''), st)
      else
        let key = cache_key lib (client.truncate c) method endpoint params;
            store = (use_cache \<and> enable_cache c \<and> method = ''GET'')
        in case cache_check (client.truncate c) w key store st of
             (Some hit, st0) \<Rightarrow> (Inr hit, st0)
           | (None, st0) \<Rightarrow>
               (case async_attempt_loop c w key store (py_range (max_retries c + 1)) st0 of
                  (Some res, st1) \<Rightarrow> (res, st1)
                | (None, st1) \<Rightarrow> (Inl max_retries_exceeded, st1)))"

section \<open>Construction of the client\<close>

text \<open>
  The arguments of \<open>FortitudeClient.__init__\<close>; \<open>None\<close> is an argument left at its
  default. The environment maps variable names to their values.
\<close>

record init_args =
  arg_api_key :: "string option"
  arg_base_url :: "string option"
  arg_timeout :: "int option"
  arg_max_retries :: "int option"
  arg_enable_cache :: bool
  arg_cache_ttl :: real

text \<open>
  The left operand of \<open>x or y\<close> when it is chosen: a value that is neither \<open>None\<close>
  nor falsy (\<open>0\<close>, the empty string).
\<close>

definition truthy_int :: "int option \<Rightarrow> int option" where
  "truthy_int x = (case x of None \<Rightarrow> None | Some n \<Rightarrow> if n = 0 then None else Some n)"

definition truthy_str :: "string option \<Rightarrow> string option" where
  "truthy_str x = (case x of None \<Rightarrow> None | Some s \<Rightarrow> if s = [] then None else Some s)"

text \<open>\<open>os.getenv(name, default)\<close>\<close>

definition getenv :: "(string \<rightharpoonup> string) \<Rightarrow> string \<Rightarrow> string \<Rightarrow> string" where
  "getenv env name dflt = (case env name of None \<Rightarrow> dflt | Some v \<Rightarrow> v)"

text \<open>\<open>FortitudeClient.__init__\<close> (lines 62 to 68 and the cache settings).\<close>

definition init :: "library \<Rightarrow> (string \<rightharpoonup> string) \<Rightarrow> init_args \<Rightarrow> pyerror + client" where
  "init lib env a =
     (let key = (case truthy_str (arg_api_key a) of
                   Some k \<Rightarrow> Some k
                 | None \<Rightarrow> env ''FORTITUDE_API_KEY'');
          url = rstrip CHR ''/''
                  (case truthy_str (arg_base_url a) of
                     Some u \<Rightarrow> u
                   | None \<Rightarrow> getenv env ''FORTITUDE_BASE_URL'' ''http://localhost:8080'')
      in case (case truthy_int (arg_timeout a) of
                 Some t \<Rightarrow> Inr t
               | None \<Rightarrow> int_of_str lib (getenv env ''FORTITUDE_TIMEOUT'' ''30'')) of
           Inl err \<Rightarrow> Inl err
         | Inr t \<Rightarrow>
             (case (case truthy_int (arg_max_retries a) of
                      Some m \<Rightarrow> Inr m
                    | None \<Rightarrow> int_of_str lib (getenv env ''FORTITUDE_MAX_RETRIES'' ''3'')) of
                Inl err \<Rightarrow> Inl err
              | Inr m \<Rightarrow>
                  (case truthy_str key of
                     None \<Rightarrow> Inl (ValueError
                       ''API key is required. Set FORTITUDE_API_KEY environment variable or pass api_key parameter.'')
                   | Some k \<Rightarrow>
                       Inr \<lparr>api_key = k, base_url = url, timeout = t, max_retries = m,
                            enable_cache = arg_enable_cache a, cache_ttl = arg_cache_ttl a\<rparr>)))"

section \<open>Concrete inputs\<close>

text \<open>
  A library instance, a client, a starting state and some worlds, used to run the
  definitions on concrete inputs.
\<close>

definition example_library :: library where
  "example_library =
     \<lparr>urljoin = (\<lambda>base endpoint. base @ endpoint),
      encode_basestring = (\<lambda>s. CHR 0x22 # s @ [CHR 0x22]),
      int_of_str = (\<lambda>s. if s = ''30'' then Inr 30 else if s = ''3'' then Inr 3 else Inl (ValueError s))\<rparr>"

definition example_client :: client where
  "example_client =
     \<lparr>api_key = ''k'', base_url = ''http://localhost:8080'', timeout = 30, max_retries = 2,
      enable_cache = True, cache_ttl = 300\<rparr>"

definition fresh_state :: state where
  "fresh_state = \<lparr>cache = Map.empty, sent = 0, ticks = 0, slept = []\<rparr>"

definition error_response :: "int \<Rightarrow> response" where
  "error_response code =
     \<lparr>status = code, raw_text = ''{\"message\": \"boom\"}'',
      json_body = Inr (JObj [(''message'', JStr ''boom'')])\<rparr>"

definition always_500 :: world where
  "always_500 = \<lparr>outcomes = (\<lambda>n. Responds (error_response 500)), clock = (\<lambda>n. real n)\<rparr>"

definition always_refused :: world where
  "always_refused =
     \<lparr>outcomes = (\<lambda>n. Raises \<lparr>classes = [RequestException, ClientError],
                                   exn_str = ''connection refused''\<rparr>),
      clock = (\<lambda>n. real n)\<rparr>"

definition always_responds :: "response \<Rightarrow> world" where
  "always_responds r = \<lparr>outcomes = (\<lambda>n. Responds r), clock = (\<lambda>n. real n)\<rparr>"

definition not_found_response :: response where
  "not_found_response =
     \<lparr>status = 404,
      raw_text = ''{\"message\": \"Research result not found\", \"error_code\": \"NOT_FOUND\", \"request_id\": \"req-42\", \"details\": \"no result with this id\"}'',
      json_body = Inr (JObj [(''message'', JStr ''Research result not found''),
                             (''error_code'', JStr ''NOT_FOUND''),
                             (''request_id'', JStr ''req-42''),
                             (''details'', JStr ''no result with this id'')])\<rparr>"

definition empty_object_404 :: response where
  "empty_object_404 = \<lparr>status = 404, raw_text = ''{}'', json_body = Inr (JObj [])\<rparr>"

definition list_body_500 :: response where
  "list_body_500 = \<lparr>status = 500, raw_text = ''[]'', json_body = Inr (JArr [])\<rparr>"

definition ok_response :: response where
  "ok_response =
     \<lparr>status = 200, raw_text = ''{\"status\": \"ok\"}'',
      json_body = Inr (JObj [(''status'', JStr ''ok'')])\<rparr>"

definition always_ok :: world where
  "always_ok = \<lparr>outcomes = (\<lambda>n. Responds ok_response), clock = (\<lambda>n. 100 * real n)\<rparr>"

definition health_key :: string where
  "health_key = ''GET:http://localhost:8080/health:{}''"

definition cached_state :: state where
  "cached_state =
     \<lparr>cache = [health_key \<mapsto> \<lparr>data = JObj [(''status'', JStr ''ok'')], timestamp = 0\<rparr>],
      sent = 1, ticks = 1, slept = []\<rparr>"

definition stale_state :: state where
  "stale_state =
     \<lparr>cache = [health_key \<mapsto> \<lparr>data = JStr ''old'', timestamp = 0\<rparr>],
      sent = 1, ticks = 4, slept = []\<rparr>"

definition example_async_client :: async_client where
  "example_async_client =
     \<lparr>api_key = ''k'', base_url = ''http://localhost:8080'', timeout = 30, max_retries = 2,
      enable_cache = True, cache_ttl = 300, session = True\<rparr>"

definition malformed_404 :: response where
  "malformed_404 =
     \<lparr>status = 404, raw_text = ''{\"message\": '',
      json_body = Inl \<lparr>classes = [JSONDecodeError], exn_str = ''Expecting value''\<rparr>\<rparr>"

definition malformed_404_requests :: response where
  "malformed_404_requests =
     \<lparr>status = 404, raw_text = ''{\"message\": '',
      json_body = Inl \<lparr>classes = [RequestException, JSONDecodeError], exn_str = ''Expecting value''\<rparr>\<rparr>"

section \<open>Unfolding the engine on concrete inputs\<close>

lemma py_range_Suc: "0 \<le> n \<Longrightarrow> py_range (n + 1) = py_range n @ [n]"
  by (simp add: py_range_def nat_add_distrib)

lemma py_range_rec: "py_range n = (if 0 < n then py_range (n - 1) @ [n - 1] else [])"
  using py_range_Suc [of "n - 1"] by (simp add: py_range_def)

lemmas engine_defs = make_request_def cache_check_def cache_key_def py_range_rec attempt_iter_def
  attempt_try_def raise_for_response_def is_RequestException_def request_failed_def
  str_of_error_def backoff_def transient_statuses_def dict_get_def isinstance_def
  max_retries_exceeded_def

lemmas example_defs = example_library_def example_client_def fresh_state_def error_response_def
  always_500_def

section \<open>One iteration and the loop\<close>

lemma attempt_try_sent: "sent (snd (attempt_try c w key store a st)) = Suc (sent st)"
  by (simp add: attempt_try_def backoff_def Let_def split: outcome.splits sum.splits)

lemma attempt_iter_sent: "sent (snd (attempt_iter c w key store a st)) = Suc (sent st)"
  using attempt_try_sent [of c w key store a st]
  by (auto simp: attempt_iter_def backoff_def split: prod.splits sum.splits)

lemma attempt_loop_sent_le:
  "sent (snd (attempt_loop c w key store xs st)) \<le> sent st + length xs"
proof (induction xs arbitrary: st)
  case Nil
  show ?case by simp
next
  case (Cons a xs)
  obtain r st1 where it: "attempt_iter c w key store a st = (r, st1)"
    by (cases "attempt_iter c w key store a st")
  have s1: "sent st1 = Suc (sent st)"
    using attempt_iter_sent [of c w key store a st] it by simp
  show ?case
  proof (cases r)
    case (Inl err)
    with it s1 show ?thesis by simp
  next
    case (Inr f)
    show ?thesis
    proof (cases f)
      case (Return v)
      with Inr it s1 show ?thesis by simp
    next
      case Continue
      with Inr it s1 Cons.IH [of st1] show ?thesis by simp
    qed
  qed
qed

lemma cache_check_sent: "sent (snd (cache_check c w key store st)) = sent st"
  by (simp add: cache_check_def split: option.splits)

lemma length_py_range: "length (py_range n) = nat n"
  by (simp add: py_range_def)

lemma attempt_iter_Continue_lt:
  "fst (attempt_iter c w key store a st) = Inr Continue \<Longrightarrow> a < max_retries c"
  by (auto simp: attempt_iter_def attempt_try_def Let_def
           split: prod.splits sum.splits outcome.splits if_splits)

lemma attempt_loop_not_exhausted:
  "xs \<noteq> [] \<Longrightarrow> max_retries c \<le> last xs \<Longrightarrow> fst (attempt_loop c w key store xs st) \<noteq> None"
proof (induction xs arbitrary: st)
  case Nil
  then show ?case by simp
next
  case (Cons a xs)
  obtain r st1 where it: "attempt_iter c w key store a st = (r, st1)"
    by (cases "attempt_iter c w key store a st")
  show ?case
  proof (cases r)
    case (Inl err)
    with it show ?thesis by simp
  next
    case (Inr f)
    show ?thesis
    proof (cases f)
      case (Return v)
      with Inr it show ?thesis by simp
    next
      case Continue
      with Inr it have lt: "a < max_retries c"
        using attempt_iter_Continue_lt [of c w key store a st] by simp
      with Cons.prems have ne: "xs \<noteq> []" by auto
      with Cons.prems have "max_retries c \<le> last xs" by simp
      with ne Cons.IH [of st1] Continue Inr it show ?thesis by simp
    qed
  qed
qed

lemma attempt_try_slept:
  "slept (snd (attempt_try c w key store a st)) =
     (if fst (attempt_try c w key store a st) = Inr Continue then slept st @ [2 ^ nat a] else slept st)"
  by (simp add: attempt_try_def backoff_def Let_def split: outcome.splits sum.splits)

lemma attempt_iter_slept:
  "slept (snd (attempt_iter c w key store a st)) =
     (if fst (attempt_iter c w key store a st) = Inr Continue then slept st @ [2 ^ nat a] else slept st)"
  using attempt_try_slept [of c w key store a st]
  by (auto simp: attempt_iter_def backoff_def split: prod.splits sum.splits if_splits)

lemma attempt_loop_trace:
  "\<exists>k\<le>length xs.
     slept (snd (attempt_loop c w key store xs st)) = slept st @ map (\<lambda>a. 2 ^ nat a) (take k xs) \<and>
     sent (snd (attempt_loop c w key store xs st)) =
       (if fst (attempt_loop c w key store xs st) = None then sent st + k else Suc (sent st + k))"
proof (induction xs arbitrary: st)
  case Nil
  show ?case by simp
next
  case (Cons a xs)
  obtain r st1 where it: "attempt_iter c w key store a st = (r, st1)"
    by (cases "attempt_iter c w key store a st")
  have s1: "sent st1 = Suc (sent st)"
    using attempt_iter_sent [of c w key store a st] it by simp
  have d1: "slept st1 = (if r = Inr Continue then slept st @ [2 ^ nat a] else slept st)"
    using attempt_iter_slept [of c w key store a st] it by simp
  show ?case
  proof (cases "r = Inr Continue")
    case True
    from Cons.IH [of st1] obtain k where k: "k \<le> length xs"
      "slept (snd (attempt_loop c w key store xs st1)) = slept st1 @ map (\<lambda>a. 2 ^ nat a) (take k xs)"
      "sent (snd (attempt_loop c w key store xs st1)) =
         (if fst (attempt_loop c w key store xs st1) = None then sent st1 + k else Suc (sent st1 + k))"
      by blast
    have eq: "attempt_loop c w key store (a # xs) st = attempt_loop c w key store xs st1"
      using it True by simp
    show ?thesis
      by (rule exI [of _ "Suc k"]) (use k eq s1 d1 True in simp)
  next
    case False
    then have "fst (attempt_loop c w key store (a # xs) st) \<noteq> None
        \<and> snd (attempt_loop c w key store (a # xs) st) = st1"
      using it by (cases r; simp split: flow.splits)
    then show ?thesis
      by (intro exI [of _ 0]) (use s1 d1 False in simp)
  qed
qed

lemma raise_for_response_not_exceeded: "raise_for_response r \<noteq> max_retries_exceeded"
  by (auto simp: raise_for_response_def max_retries_exceeded_def split: sum.splits json.splits)

lemma request_failed_not_exceeded: "request_failed err \<noteq> max_retries_exceeded"
  by (simp add: request_failed_def max_retries_exceeded_def)

lemma attempt_iter_error_not_exceeded:
  "fst (attempt_iter c w key store a st) \<noteq> Inl max_retries_exceeded"
proof -
  have t: "fst (attempt_try c w key store a st) \<noteq> Inl max_retries_exceeded"
    using raise_for_response_not_exceeded
    by (auto simp: attempt_try_def max_retries_exceeded_def Let_def
             split: outcome.splits sum.splits if_splits)
  obtain x st1 where tr: "attempt_try c w key store a st = (x, st1)"
    by (cases "attempt_try c w key store a st")
  show ?thesis
  proof (cases x)
    case (Inl err)
    with tr t have "err \<noteq> max_retries_exceeded" by simp
    with tr Inl request_failed_not_exceeded [of err] show ?thesis
      by (simp add: attempt_iter_def)
  next
    case (Inr f)
    with tr show ?thesis by (simp add: attempt_iter_def)
  qed
qed

lemma attempt_loop_error_not_exceeded:
  "fst (attempt_loop c w key store xs st) \<noteq> Some (Inl max_retries_exceeded)"
proof (induction xs arbitrary: st)
  case Nil
  show ?case by simp
next
  case (Cons a xs)
  obtain x st1 where it: "attempt_iter c w key store a st = (x, st1)"
    by (cases "attempt_iter c w key store a st")
  show ?case
  proof (cases x)
    case (Inl err)
    with it attempt_iter_error_not_exceeded [of c w key store a st] show ?thesis by simp
  next
    case (Inr f)
    with it Cons.IH [of st1] show ?thesis by (cases f) simp_all
  qed
qed

section \<open>The number of transport attempts\<close>

text \<open>
  C1. A single call of \<open>_make_request\<close> dispatches to the session at most
  \<open>max_retries + 1\<close> times, whatever the request and whatever the transport answers;
  \<open>max_retries\<close> is a retry count, that is, not negative.
\<close>

theorem attempts_at_most:
  assumes "0 \<le> max_retries c"
  shows "int (sent (snd (make_request lib c w method endpoint body params use_cache st)))
           \<le> int (sent st) + (max_retries c + 1)"
proof -
  let ?key = "cache_key lib c method endpoint params"
  let ?store = "use_cache \<and> enable_cache c \<and> method = ''GET''"
  obtain h st0 where cc: "cache_check c w ?key ?store st = (h, st0)"
    by (cases "cache_check c w ?key ?store st")
  have s0: "sent st0 = sent st"
    using cache_check_sent [of c w ?key ?store st] cc by simp
  show ?thesis
  proof (cases h)
    case (Some hit)
    with cc s0 assms show ?thesis by (simp add: make_request_def)
  next
    case None
    obtain res st1 where lp:
      "attempt_loop c w ?key ?store (py_range (max_retries c + 1)) st0 = (res, st1)"
      by (cases "attempt_loop c w ?key ?store (py_range (max_retries c + 1)) st0")
    have "sent st1 \<le> sent st0 + nat (max_retries c + 1)"
      using attempt_loop_sent_le [of c w ?key ?store "py_range (max_retries c + 1)" st0] lp
      by (simp add: length_py_range)
    moreover have "snd (make_request lib c w method endpoint body params use_cache st) = st1"
      using cc None lp by (simp add: make_request_def split: option.splits)
    ultimately show ?thesis using s0 assms by simp
  qed
qed


theorem attempts_at_most_witness:
  "(0::int) \<le> max_retries example_client \<and>
   int (sent (snd (make_request example_library example_client always_500 ''POST''
          ''/api/v1/research'' None None False fresh_state)))
     \<le> int (sent fresh_state) + (max_retries example_client + 1)"
  using attempts_at_most [of example_client example_library always_500 "''POST''"
          "''/api/v1/research''" None None False fresh_state]
  by (simp add: example_client_def)


section \<open>The loop never runs to its end\<close>

text \<open>
  C10. With \<open>max_retries \<ge> 0\<close> the attempt loop of \<open>_make_request\<close> always leaves by
  a return or a raise: the iteration with \<open>attempt = max_retries\<close>, the last one, cannot
  continue, so the loop never runs to its end, the raise of "Max retries exceeded" after
  it is not reached and no call ends with that error.
\<close>

theorem loop_never_falls_through:
  assumes "0 \<le> max_retries c"
  shows "fst (attempt_iter c w key store (max_retries c) st) \<noteq> Inr Continue
       \<and> fst (attempt_loop c w key store (py_range (max_retries c + 1)) st) \<noteq> None
       \<and> fst (make_request lib c w method endpoint body params use_cache st)
            \<noteq> Inl max_retries_exceeded"
proof (intro conjI)
  show "fst (attempt_iter c w key store (max_retries c) st) \<noteq> Inr Continue"
    using attempt_iter_Continue_lt [of c w key store "max_retries c" st] by auto
  show "fst (attempt_loop c w key store (py_range (max_retries c + 1)) st) \<noteq> None"
    using assms by (intro attempt_loop_not_exhausted) (simp_all add: py_range_Suc)
  let ?key = "cache_key lib c method endpoint params"
  let ?store = "use_cache \<and> enable_cache c \<and> method = ''GET''"
  obtain h st0 where cc: "cache_check c w ?key ?store st = (h, st0)"
    by (cases "cache_check c w ?key ?store st")
  obtain res st1 where lp:
    "attempt_loop c w ?key ?store (py_range (max_retries c + 1)) st0 = (res, st1)"
    by (cases "attempt_loop c w ?key ?store (py_range (max_retries c + 1)) st0")
  have "res \<noteq> None"
    using attempt_loop_not_exhausted [of "py_range (max_retries c + 1)" c w ?key ?store st0]
      assms lp by (simp add: py_range_Suc)
  moreover have "res \<noteq> Some (Inl max_retries_exceeded)"
    using attempt_loop_error_not_exceeded [of c w ?key ?store "py_range (max_retries c + 1)" st0]
      lp by simp
  ultimately show "fst (make_request lib c w method endpoint body params use_cache st)
            \<noteq> Inl max_retries_exceeded"
    using cc lp by (cases h) (auto simp: make_request_def)
qed

theorem loop_never_falls_through_witness:
  "(0::int) \<le> max_retries example_client \<and>
   fst (attempt_loop example_client always_500 ''k'' False
          (py_range (max_retries example_client + 1)) fresh_state) \<noteq> None \<and>
   fst (make_request example_library example_client always_500 ''POST'' ''/api/v1/research''
          None None False fresh_state) \<noteq> Inl max_retries_exceeded"
proof -
  have h: "0 \<le> max_retries example_client"
    by (simp add: example_client_def)
  from loop_never_falls_through [OF h, of always_500 "''k''" False fresh_state example_library
      "''POST''" "''/api/v1/research''" None None False] h
  show ?thesis by simp
qed

section \<open>The delays between attempts\<close>

text \<open>
  C4. The delays a call sleeps are exactly \<open>2^0, 2^1, 2^2, ...\<close> in this order, one
  after each attempt but the last: the retry after attempt \<open>i\<close> (0-based) sleeps \<open>2^i\<close>,
  whether it follows a transient status or a transport failure.
\<close>

theorem backoff_delays:
  "slept (snd (make_request lib c w method endpoint body params use_cache st)) =
     slept st @ map (\<lambda>i. 2 ^ i)
       [0..<sent (snd (make_request lib c w method endpoint body params use_cache st)) - Suc (sent st)]"
proof -
  let ?key = "cache_key lib c method endpoint params"
  let ?store = "use_cache \<and> enable_cache c \<and> method = ''GET''"
  let ?xs = "py_range (max_retries c + 1)"
  obtain h st0 where cc: "cache_check c w ?key ?store st = (h, st0)"
    by (cases "cache_check c w ?key ?store st")
  have s0: "sent st0 = sent st" "slept st0 = slept st"
    using cc by (auto simp: cache_check_def split: if_splits option.splits)
  show ?thesis
  proof (cases h)
    case (Some hit)
    with cc s0 show ?thesis by (simp add: make_request_def)
  next
    case None
    let ?r = "attempt_loop c w ?key ?store ?xs st0"
    have mr: "snd (make_request lib c w method endpoint body params use_cache st) = snd ?r"
      using cc None by (simp add: make_request_def split: option.splits prod.splits)
    obtain k where k: "k \<le> length ?xs"
      "slept (snd ?r) = slept st0 @ map (\<lambda>a. 2 ^ nat a) (take k ?xs)"
      "sent (snd ?r) = (if fst ?r = None then sent st0 + k else Suc (sent st0 + k))"
      using attempt_loop_trace [of ?xs c w ?key ?store st0] by blast
    have tk: "map (\<lambda>a. 2 ^ nat a) (take k ?xs) = map (\<lambda>i. (2::int) ^ i) [0..<k]"
      using k(1) by (simp add: py_range_def take_map o_def min_def)
    show ?thesis
    proof (cases "0 \<le> max_retries c")
      case True
      then have "fst ?r \<noteq> None"
        by (intro attempt_loop_not_exhausted) (simp_all add: py_range_Suc)
      with k tk s0 mr show ?thesis by simp
    next
      case False
      then have "?xs = []" by (simp add: py_range_def)
      with s0 mr show ?thesis by simp
    qed
  qed
qed


theorem backoff_delays_witness:
  "slept (snd (make_request example_library example_client always_500 ''POST''
          ''/api/v1/research'' None None False fresh_state)) = [1, 2] \<and>
   slept (snd (make_request example_library example_client always_refused ''POST''
          ''/api/v1/research'' None None False fresh_state)) = [1, 2]"
  using backoff_delays [of example_library example_client always_500 "''POST''"
          "''/api/v1/research''" None None False fresh_state]
        backoff_delays [of example_library example_client always_refused "''POST''"
          "''/api/v1/research''" None None False fresh_state]
  by (simp add: engine_defs example_defs always_refused_def Let_def)

section \<open>Responses that are not retried\<close>

lemma attempt_iter_terminal:
  assumes "outcomes w (sent st) = Responds r"
    and "status r \<noteq> 200" and "status r \<notin> set transient_statuses"
    and "raise_for_response r = FortitudeAPIError ae"
  shows "attempt_iter c w key store a st = (Inl (FortitudeAPIError ae), st\<lparr>sent := Suc (sent st)\<rparr>)"
  using assms by (simp add: attempt_iter_def attempt_try_def is_RequestException_def)

lemma attempt_loop_terminal:
  assumes "outcomes w j = Responds r"
    and "status r \<noteq> 200" and "status r \<notin> set transient_statuses"
    and "raise_for_response r = FortitudeAPIError ae"
    and "sent st \<le> j" and "j < sent (snd (attempt_loop c w key store xs st))"
  shows "fst (attempt_loop c w key store xs st) = Some (Inl (FortitudeAPIError ae))
       \<and> sent (snd (attempt_loop c w key store xs st)) = Suc j"
  using assms(5,6)
proof (induction xs arbitrary: st)
  case Nil
  then show ?case by simp
next
  case (Cons a xs)
  show ?case
  proof (cases "j = sent st")
    case True
    then show ?thesis
      using attempt_iter_terminal [OF _ assms(2,3,4), of w st c key store a] assms(1)
      by simp
  next
    case False
    with Cons.prems have lt: "sent st < j" by simp
    obtain x st1 where it: "attempt_iter c w key store a st = (x, st1)"
      by (cases "attempt_iter c w key store a st")
    have s1: "sent st1 = Suc (sent st)"
      using attempt_iter_sent [of c w key store a st] it by simp
    show ?thesis
    proof (cases "x = Inr Continue")
      case True
      with it have eq: "attempt_loop c w key store (a # xs) st = attempt_loop c w key store xs st1"
        by simp
      show ?thesis
        using Cons.IH [of st1] Cons.prems lt s1 eq by simp
    next
      case False
      with it have "snd (attempt_loop c w key store (a # xs) st) = st1"
        by (cases x; simp split: flow.splits)
      with Cons.prems s1 lt show ?thesis by simp
    qed
  qed
qed

lemma make_request_terminal:
  assumes "outcomes w j = Responds r"
    and "status r \<noteq> 200" and "status r \<notin> set transient_statuses"
    and "raise_for_response r = FortitudeAPIError ae"
    and "sent st \<le> j"
    and "j < sent (snd (make_request lib c w method endpoint body params use_cache st))"
  shows "fst (make_request lib c w method endpoint body params use_cache st) = Inl (FortitudeAPIError ae)
       \<and> sent (snd (make_request lib c w method endpoint body params use_cache st)) = Suc j"
proof -
  let ?key = "cache_key lib c method endpoint params"
  let ?store = "use_cache \<and> enable_cache c \<and> method = ''GET''"
  let ?xs = "py_range (max_retries c + 1)"
  obtain h st0 where cc: "cache_check c w ?key ?store st = (h, st0)"
    by (cases "cache_check c w ?key ?store st")
  have s0: "sent st0 = sent st"
    using cache_check_sent [of c w ?key ?store st] cc by simp
  show ?thesis
  proof (cases h)
    case (Some hit)
    with cc s0 assms(5,6) show ?thesis by (simp add: make_request_def)
  next
    case None
    let ?r = "attempt_loop c w ?key ?store ?xs st0"
    have mr: "snd (make_request lib c w method endpoint body params use_cache st) = snd ?r"
      using cc None by (simp add: make_request_def split: option.splits prod.splits)
    have "fst ?r = Some (Inl (FortitudeAPIError ae)) \<and> sent (snd ?r) = Suc j"
      using attempt_loop_terminal [OF assms(1,2,3,4), of st0 c ?key ?store ?xs] assms(5,6) s0 mr
      by simp
    then show ?thesis
      using cc None mr by (simp add: make_request_def split: option.splits prod.splits)
  qed
qed

text \<open>
  C5. When an attempt of a call receives a response whose status is not 2xx and not one of
  429, 500, 502, 503, 504, the call ends there (no attempt follows it) with a
  \<open>FortitudeAPIError\<close>: if the body decodes to an object, the message, error code,
  request id and details are those of the body (the message "Unknown error" when the body
  has none, the others \<open>None\<close>); if decoding raises \<open>JSONDecodeError\<close>, the message is
  "HTTP", the status and the raw text, and the other fields are \<open>None\<close>.
\<close>

theorem client_error_surfaces:
  assumes "outcomes w j = Responds r"
    and "sent st \<le> j"
    and "j < sent (snd (make_request lib c w method endpoint body params use_cache st))"
    and "status r < 200 \<or> 300 \<le> status r"
    and "status r \<notin> {429, 500, 502, 503, 504}"
  shows "(\<forall>d. json_body r = Inr (JObj d) \<longrightarrow>
            fst (make_request lib c w method endpoint body params use_cache st) =
              Inl (FortitudeAPIError
                \<lparr>message = (case map_of d ''message'' of None \<Rightarrow> JStr ''Unknown error'' | Some v \<Rightarrow> v),
                 error_code = (case map_of d ''error_code'' of None \<Rightarrow> JNull | Some v \<Rightarrow> v),
                 status_code = Some (status r),
                 request_id = (case map_of d ''request_id'' of None \<Rightarrow> JNull | Some v \<Rightarrow> v),
                 details = (case map_of d ''details'' of None \<Rightarrow> JNull | Some v \<Rightarrow> v)\<rparr>)
          \<and> sent (snd (make_request lib c w method endpoint body params use_cache st)) = Suc j)
       \<and> (\<forall>e. json_body r = Inl e \<and> isinstance e JSONDecodeError \<longrightarrow>
            fst (make_request lib c w method endpoint body params use_cache st) =
              Inl (FortitudeAPIError
                \<lparr>message = JStr (''HTTP '' @ str_int (status r) @ '': '' @ raw_text r),
                 error_code = JNull, status_code = Some (status r),
                 request_id = JNull, details = JNull\<rparr>)
          \<and> sent (snd (make_request lib c w method endpoint body params use_cache st)) = Suc j)"
proof -
  have ne: "status r \<noteq> 200" using assms(4) by auto
  have nt: "status r \<notin> set transient_statuses" using assms(5) by (simp add: transient_statuses_def)
  note mt = make_request_terminal [OF assms(1) ne nt _ assms(2,3)]
  show ?thesis
  proof (intro conjI allI impI)
    fix d assume b: "json_body r = Inr (JObj d)"
    have rr: "raise_for_response r = FortitudeAPIError
                \<lparr>message = (case map_of d ''message'' of None \<Rightarrow> JStr ''Unknown error'' | Some v \<Rightarrow> v),
                 error_code = (case map_of d ''error_code'' of None \<Rightarrow> JNull | Some v \<Rightarrow> v),
                 status_code = Some (status r),
                 request_id = (case map_of d ''request_id'' of None \<Rightarrow> JNull | Some v \<Rightarrow> v),
                 details = (case map_of d ''details'' of None \<Rightarrow> JNull | Some v \<Rightarrow> v)\<rparr>"
      using b by (simp add: raise_for_response_def dict_get_def)
    from mt [OF rr]
    show "fst (make_request lib c w method endpoint body params use_cache st) =
              Inl (FortitudeAPIError
                \<lparr>message = (case map_of d ''message'' of None \<Rightarrow> JStr ''Unknown error'' | Some v \<Rightarrow> v),
                 error_code = (case map_of d ''error_code'' of None \<Rightarrow> JNull | Some v \<Rightarrow> v),
                 status_code = Some (status r),
                 request_id = (case map_of d ''request_id'' of None \<Rightarrow> JNull | Some v \<Rightarrow> v),
                 details = (case map_of d ''details'' of None \<Rightarrow> JNull | Some v \<Rightarrow> v)\<rparr>)"
      and "sent (snd (make_request lib c w method endpoint body params use_cache st)) = Suc j"
      by simp_all
  next
    fix e assume b: "json_body r = Inl e \<and> isinstance e JSONDecodeError"
    have rr: "raise_for_response r = FortitudeAPIError
                \<lparr>message = JStr (''HTTP '' @ str_int (status r) @ '': '' @ raw_text r),
                 error_code = JNull, status_code = Some (status r),
                 request_id = JNull, details = JNull\<rparr>"
      using b by (simp add: raise_for_response_def)
    from mt [OF rr]
    show "fst (make_request lib c w method endpoint body params use_cache st) =
              Inl (FortitudeAPIError
                \<lparr>message = JStr (''HTTP '' @ str_int (status r) @ '': '' @ raw_text r),
                 error_code = JNull, status_code = Some (status r),
                 request_id = JNull, details = JNull\<rparr>)"
      and "sent (snd (make_request lib c w method endpoint body params use_cache st)) = Suc j"
      by simp_all
  qed
qed

theorem client_error_surfaces_witness:
  "fst (make_request example_library example_client (always_responds not_found_response) ''GET''
          ''/api/v1/research/42'' None None True fresh_state) =
     Inl (FortitudeAPIError \<lparr>message = JStr ''Research result not found'',
            error_code = JStr ''NOT_FOUND'', status_code = Some 404,
            request_id = JStr ''req-42'', details = JStr ''no result with this id''\<rparr>) \<and>
   sent (snd (make_request example_library example_client (always_responds not_found_response) ''GET''
          ''/api/v1/research/42'' None None True fresh_state)) = Suc 0 \<and>
   fst (make_request example_library example_client (always_responds empty_object_404) ''GET''
          ''/api/v1/research/42'' None None True fresh_state) =
     Inl (FortitudeAPIError \<lparr>message = JStr ''Unknown error'', error_code = JNull,
            status_code = Some 404, request_id = JNull, details = JNull\<rparr>) \<and>
   fst (make_request example_library example_client (always_responds malformed_404) ''GET''
          ''/api/v1/research/42'' None None True fresh_state) =
     Inl (FortitudeAPIError \<lparr>message = JStr ''HTTP 404: {\"message\": '', error_code = JNull,
            status_code = Some 404, request_id = JNull, details = JNull\<rparr>)"
proof -
  have h1: "outcomes (always_responds r) 0 = Responds r" for r
    by (simp add: always_responds_def)
  have h2: "sent fresh_state \<le> 0"
    by (simp add: fresh_state_def)
  have a3: "0 < sent (snd (make_request example_library example_client
              (always_responds not_found_response) ''GET'' ''/api/v1/research/42'' None None True
              fresh_state))"
    by (simp add: engine_defs example_defs always_responds_def not_found_response_def Let_def)
  have a4: "status not_found_response < 200 \<or> 300 \<le> status not_found_response"
    and a5: "status not_found_response \<notin> {429, 500, 502, 503, 504}"
    by (simp_all add: not_found_response_def)
  have ab: "json_body not_found_response =
              Inr (JObj [(''message'', JStr ''Research result not found''),
                         (''error_code'', JStr ''NOT_FOUND''),
                         (''request_id'', JStr ''req-42''),
                         (''details'', JStr ''no result with this id'')])"
    by (simp add: not_found_response_def)
  have b3: "0 < sent (snd (make_request example_library example_client
              (always_responds empty_object_404) ''GET'' ''/api/v1/research/42'' None None True
              fresh_state))"
    by (simp add: engine_defs example_defs always_responds_def empty_object_404_def Let_def)
  have b4: "status empty_object_404 < 200 \<or> 300 \<le> status empty_object_404"
    and b5: "status empty_object_404 \<notin> {429, 500, 502, 503, 504}"
    and bb: "json_body empty_object_404 = Inr (JObj [])"
    by (simp_all add: empty_object_404_def)
  have c3: "0 < sent (snd (make_request example_library example_client
              (always_responds malformed_404) ''GET'' ''/api/v1/research/42'' None None True
              fresh_state))"
    by (simp add: engine_defs example_defs always_responds_def malformed_404_def Let_def)
  have c4: "status malformed_404 < 200 \<or> 300 \<le> status malformed_404"
    and c5: "status malformed_404 \<notin> {429, 500, 502, 503, 504}"
    and cb: "json_body malformed_404 = Inl \<lparr>classes = [JSONDecodeError], exn_str = ''Expecting value''\<rparr>
               \<and> isinstance \<lparr>classes = [JSONDecodeError], exn_str = ''Expecting value''\<rparr> JSONDecodeError"
    and ct: "''HTTP '' @ str_int (status malformed_404) @ '': '' @ raw_text malformed_404
               = ''HTTP 404: {\"message\": ''"
    by (simp_all add: malformed_404_def isinstance_def str_int_def str_nat.simps digit_char_def)
  from client_error_surfaces [OF h1 h2 a3 a4 a5] ab
       client_error_surfaces [OF h1 h2 b3 b4 b5] bb
       client_error_surfaces [OF h1 h2 c3 c4 c5] cb ct
  show ?thesis
    by (simp add: not_found_response_def empty_object_404_def malformed_404_def)
qed

section \<open>Retries used up by status 500\<close>

lemma attempt_iter_transient:
  assumes "outcomes w (sent st) = Responds r"
    and "status r \<in> set transient_statuses" and "status r \<noteq> 200" and "a < max_retries c"
  shows "attempt_iter c w key store a st =
           (Inr Continue, st\<lparr>sent := Suc (sent st), slept := slept st @ [2 ^ nat a]\<rparr>)"
  using assms by (simp add: attempt_iter_def attempt_try_def backoff_def)

lemma attempt_loop_all_transient:
  assumes "\<forall>n. \<exists>r. outcomes w n = Responds r \<and> status r \<in> set transient_statuses \<and> status r \<noteq> 200"
    and "\<forall>a\<in>set ys. a < max_retries c"
  shows "attempt_loop c w key store (ys @ zs) st =
           attempt_loop c w key store zs
             (st\<lparr>sent := sent st + length ys, slept := slept st @ map (\<lambda>a. 2 ^ nat a) ys\<rparr>)"
  using assms(2)
proof (induction ys arbitrary: st)
  case Nil
  show ?case by simp
next
  case (Cons a ys)
  obtain r where r: "outcomes w (sent st) = Responds r" "status r \<in> set transient_statuses"
      "status r \<noteq> 200"
    using assms(1) by blast
  have it: "attempt_iter c w key store a st =
           (Inr Continue, st\<lparr>sent := Suc (sent st), slept := slept st @ [2 ^ nat a]\<rparr>)"
    using attempt_iter_transient [OF r] Cons.prems by simp
  show ?case
    using Cons.IH [of "st\<lparr>sent := Suc (sent st), slept := slept st @ [2 ^ nat a]\<rparr>"] Cons.prems it
    by simp
qed

lemma attempt_iter_final:
  assumes "outcomes w (sent st) = Responds r"
    and "status r \<noteq> 200" and "\<not> a < max_retries c"
  shows "attempt_iter c w key store a st =
           (Inl (if is_RequestException (raise_for_response r)
                 then request_failed (raise_for_response r) else raise_for_response r),
            st\<lparr>sent := Suc (sent st)\<rparr>)"
  using assms by (simp add: attempt_iter_def attempt_try_def)

lemma make_request_all_500:
  assumes all500: "\<forall>n. \<exists>r. outcomes w n = Responds r \<and> status r = 500"
    and started: "sent st < sent (snd (make_request lib c w method endpoint body params use_cache st))"
    and last: "outcomes w (sent st + nat (max_retries c)) = Responds r"
  shows "0 \<le> max_retries c
       \<and> fst (make_request lib c w method endpoint body params use_cache st) =
           Inl (if is_RequestException (raise_for_response r)
                then request_failed (raise_for_response r) else raise_for_response r)
       \<and> int (sent (snd (make_request lib c w method endpoint body params use_cache st)))
           = int (sent st) + max_retries c + 1"
proof -
  let ?key = "cache_key lib c method endpoint params"
  let ?store = "use_cache \<and> enable_cache c \<and> method = ''GET''"
  let ?m = "max_retries c"
  let ?err = "if is_RequestException (raise_for_response r)
                then request_failed (raise_for_response r) else raise_for_response r"
  obtain h st0 where cc: "cache_check c w ?key ?store st = (h, st0)"
    by (cases "cache_check c w ?key ?store st")
  have s0: "sent st0 = sent st"
    using cache_check_sent [of c w ?key ?store st] cc by simp
  have miss: "h = None"
  proof (cases h)
    case (Some hit)
    with cc s0 started show ?thesis by (simp add: make_request_def)
  qed simp
  have nonneg: "0 \<le> ?m"
  proof (rule ccontr)
    assume "\<not> 0 \<le> ?m"
    then have "py_range (?m + 1) = []" by (simp add: py_range_def)
    with cc miss s0 started show False by (simp add: make_request_def)
  qed
  have tr: "\<forall>n. \<exists>r. outcomes w n = Responds r \<and> status r \<in> set transient_statuses \<and> status r \<noteq> 200"
  proof
    fix n
    from all500 obtain r where "outcomes w n = Responds r" "status r = 500" by blast
    then show "\<exists>r. outcomes w n = Responds r \<and> status r \<in> set transient_statuses \<and> status r \<noteq> 200"
      by (simp add: transient_statuses_def)
  qed
  have lt: "\<forall>a\<in>set (py_range ?m). a < ?m"
    by (auto simp: py_range_def)
  let ?st1 = "st0\<lparr>sent := sent st0 + length (py_range ?m),
                   slept := slept st0 @ map (\<lambda>a. 2 ^ nat a) (py_range ?m)\<rparr>"
  have lp: "attempt_loop c w ?key ?store (py_range (?m + 1)) st0
              = attempt_loop c w ?key ?store [?m] ?st1"
    using attempt_loop_all_transient [OF tr lt, of ?key ?store "[?m]" st0] nonneg
    by (simp add: py_range_Suc)
  have s1: "sent ?st1 = sent st + nat ?m"
    using s0 by (simp add: length_py_range)
  have r500: "status r \<noteq> 200"
  proof -
    from all500 obtain r' where "outcomes w (sent st + nat (max_retries c)) = Responds r'"
      "status r' = 500" by blast
    with last show ?thesis by simp
  qed
  have fin: "attempt_iter c w ?key ?store ?m ?st1 = (Inl ?err, ?st1\<lparr>sent := Suc (sent ?st1)\<rparr>)"
    by (rule attempt_iter_final [OF _ r500]) (use last s1 in simp_all)
  have res: "make_request lib c w method endpoint body params use_cache st
               = (Inl ?err, ?st1\<lparr>sent := Suc (sent ?st1)\<rparr>)"
    using cc miss lp fin by (simp add: make_request_def)
  show ?thesis
    using res nonneg s1 by simp
qed

lemma all_500_error_from_last_response:
  assumes "\<forall>n. \<exists>r. outcomes w n = Responds r \<and> status r = 500"
    and "sent st < sent (snd (make_request lib c w method endpoint body params use_cache st))"
    and "outcomes w (sent st + nat (max_retries c)) = Responds r"
  shows "int (sent (snd (make_request lib c w method endpoint body params use_cache st)))
             = int (sent st) + max_retries c + 1
       \<and> (\<forall>d. json_body r = Inr (JObj d) \<longrightarrow>
            fst (make_request lib c w method endpoint body params use_cache st) =
              Inl (FortitudeAPIError
                \<lparr>message = (case map_of d ''message'' of None \<Rightarrow> JStr ''Unknown error'' | Some v \<Rightarrow> v),
                 error_code = (case map_of d ''error_code'' of None \<Rightarrow> JNull | Some v \<Rightarrow> v),
                 status_code = Some 500,
                 request_id = (case map_of d ''request_id'' of None \<Rightarrow> JNull | Some v \<Rightarrow> v),
                 details = (case map_of d ''details'' of None \<Rightarrow> JNull | Some v \<Rightarrow> v)\<rparr>))
       \<and> (\<forall>e. json_body r = Inl e \<and> isinstance e JSONDecodeError \<longrightarrow>
            fst (make_request lib c w method endpoint body params use_cache st) =
              Inl (FortitudeAPIError
                \<lparr>message = JStr (''HTTP 500: '' @ raw_text r),
                 error_code = JNull, status_code = Some 500,
                 request_id = JNull, details = JNull\<rparr>))
       \<and> (\<forall>v. json_body r = Inr v \<and> (\<forall>d. v \<noteq> JObj d) \<longrightarrow>
            fst (make_request lib c w method endpoint body params use_cache st) = Inl AttributeError)"
proof -
  note m = make_request_all_500 [OF assms]
  have st500: "status r = 500"
    using assms(1,3) by (metis outcome.inject(2))
  have s500: "str_int 500 = ''500''"
    by (simp add: str_int_def str_nat.simps digit_char_def)
  show ?thesis
  proof (intro conjI allI impI)
    show "int (sent (snd (make_request lib c w method endpoint body params use_cache st)))
             = int (sent st) + max_retries c + 1"
      using m by simp
  next
    fix d assume "json_body r = Inr (JObj d)"
    then show "fst (make_request lib c w method endpoint body params use_cache st) =
              Inl (FortitudeAPIError
                \<lparr>message = (case map_of d ''message'' of None \<Rightarrow> JStr ''Unknown error'' | Some v \<Rightarrow> v),
                 error_code = (case map_of d ''error_code'' of None \<Rightarrow> JNull | Some v \<Rightarrow> v),
                 status_code = Some 500,
                 request_id = (case map_of d ''request_id'' of None \<Rightarrow> JNull | Some v \<Rightarrow> v),
                 details = (case map_of d ''details'' of None \<Rightarrow> JNull | Some v \<Rightarrow> v)\<rparr>)"
      using m st500 by (simp add: raise_for_response_def is_RequestException_def dict_get_def)
  next
    fix e assume "json_body r = Inl e \<and> isinstance e JSONDecodeError"
    then show "fst (make_request lib c w method endpoint body params use_cache st) =
              Inl (FortitudeAPIError
                \<lparr>message = JStr (''HTTP 500: '' @ raw_text r),
                 error_code = JNull, status_code = Some 500,
                 request_id = JNull, details = JNull\<rparr>)"
      using m st500 s500 by (simp add: raise_for_response_def is_RequestException_def)
  next
    fix v assume "json_body r = Inr v \<and> (\<forall>d. v \<noteq> JObj d)"
    then show "fst (make_request lib c w method endpoint body params use_cache st) = Inl AttributeError"
      using m by (cases v) (simp_all add: raise_for_response_def is_RequestException_def)
  qed
qed

text \<open>
  C2. When every attempt of a call is answered with status 500, the call is to make exactly
  \<open>max_retries + 1\<close> attempts and end with a \<open>FortitudeAPIError\<close>. It makes the attempts,
  and it ends with that error when the last body decodes to an object or does not decode
  (\<open>all_500_error_from_last_response\<close>). But when the body decodes to JSON that is not an
  object, \<open>error_data.get\<close> raises \<open>AttributeError\<close>, which neither handler catches:
  with \<open>max_retries = 2\<close> and three answers of status 500 whose body is \<open>[]\<close>, the call
  makes its three attempts and ends with \<open>AttributeError\<close>, not with a
  \<open>FortitudeAPIError\<close>.
\<close>

theorem all_500_list_body_raises_attribute_error:
  "fst (make_request example_library example_client (always_responds list_body_500) ''POST''
          ''/api/v1/research'' None None False fresh_state) = Inl AttributeError \<and>
   sent (snd (make_request example_library example_client (always_responds list_body_500) ''POST''
          ''/api/v1/research'' None None False fresh_state)) = 3 \<and>
   slept (snd (make_request example_library example_client (always_responds list_body_500) ''POST''
          ''/api/v1/research'' None None False fresh_state)) = [1, 2]"
  by (simp add: engine_defs example_defs always_responds_def list_body_500_def Let_def)

section \<open>The cache\<close>

lemma attempt_iter_Continue_state:
  "fst (attempt_iter c w key store a st) = Inr Continue \<Longrightarrow>
     cache (snd (attempt_iter c w key store a st)) = cache st \<and>
     ticks (snd (attempt_iter c w key store a st)) = ticks st"
  by (auto simp: attempt_iter_def attempt_try_def backoff_def Let_def
           split: prod.splits sum.splits outcome.splits if_splits)

lemma attempt_iter_cache:
  "cache (snd (attempt_iter c w key store a st)) =
     (case fst (attempt_iter c w key store a st) of
        Inr (Return r) \<Rightarrow>
          if store then (cache st)(key \<mapsto> \<lparr>data = r, timestamp = clock w (ticks st)\<rparr>) else cache st
      | _ \<Rightarrow> cache st)"
  by (auto simp: attempt_iter_def attempt_try_def backoff_def Let_def
           split: prod.splits sum.splits outcome.splits if_splits flow.splits)

lemma attempt_loop_cache:
  "cache (snd (attempt_loop c w key store xs st)) =
     (case fst (attempt_loop c w key store xs st) of
        Some (Inr r) \<Rightarrow>
          if store then (cache st)(key \<mapsto> \<lparr>data = r, timestamp = clock w (ticks st)\<rparr>) else cache st
      | _ \<Rightarrow> cache st)"
proof (induction xs arbitrary: st)
  case Nil
  show ?case by simp
next
  case (Cons a xs)
  obtain x st1 where it: "attempt_iter c w key store a st = (x, st1)"
    by (cases "attempt_iter c w key store a st")
  note ic = attempt_iter_cache [of c w key store a st]
  show ?case
  proof (cases x)
    case (Inl err)
    with it ic show ?thesis by simp
  next
    case (Inr f)
    show ?thesis
    proof (cases f)
      case (Return v)
      with Inr it ic show ?thesis by simp
    next
      case Continue
      with Inr it attempt_iter_Continue_state [of c w key store a st]
      have "cache st1 = cache st" "ticks st1 = ticks st" by simp_all
      with Cons.IH [of st1] Continue Inr it show ?thesis
        by (simp split: option.splits sum.splits)
    qed
  qed
qed

lemma cache_check_hit:
  "fst (cache_check c w key store st) = Some v \<Longrightarrow>
     store \<and> (\<exists>e. cache st key = Some e \<and> data e = v) \<and>
     snd (cache_check c w key store st) = st\<lparr>ticks := Suc (ticks st)\<rparr>"
  by (auto simp: cache_check_def split: if_splits option.splits)

lemma cache_check_cache: "cache (snd (cache_check c w key store st)) = cache st"
  by (simp add: cache_check_def split: option.splits)

lemma make_request_stores:
  assumes "make_request lib c w ''GET'' endpoint body params True st = (Inr r, st1)"
    and "enable_cache c"
  shows "\<exists>e. cache st1 (cache_key lib c ''GET'' endpoint params) = Some e \<and> data e = r"
proof -
  let ?key = "cache_key lib c ''GET'' endpoint params"
  obtain h st0 where cc: "cache_check c w ?key True st = (h, st0)"
    by (cases "cache_check c w ?key True st")
  show ?thesis
  proof (cases h)
    case (Some hit)
    with cc assms have "hit = r" "st1 = st0" by (simp_all add: make_request_def)
    with cache_check_hit [of c w ?key True st hit] cc Some show ?thesis by auto
  next
    case None
    let ?L = "attempt_loop c w ?key True (py_range (max_retries c + 1)) st0"
    have "fst ?L = Some (Inr r) \<and> snd ?L = st1"
      using cc None assms
      by (auto simp: make_request_def max_retries_exceeded_def split: prod.splits option.splits)
    with attempt_loop_cache [of c w ?key True "py_range (max_retries c + 1)" st0]
    show ?thesis by simp
  qed
qed

text \<open>
  C3. After a successful cacheable GET call (caching enabled), a second call with the same
  cache key, made while the clock minus the timestamp of the stored entry is below the
  TTL, returns the result of the first call and dispatches nothing: the state it leaves
  differs from the state it started in by one clock reading only.
\<close>

theorem cached_result_served:
  assumes "make_request lib c w ''GET'' endpoint body params True st = (Inr r, st1)"
    and "enable_cache c"
    and "cache_key lib c ''GET'' endpoint2 params2 = cache_key lib c ''GET'' endpoint params"
    and "\<forall>e. cache st1 (cache_key lib c ''GET'' endpoint params) = Some e \<longrightarrow>
           clock w (ticks st1) - timestamp e < cache_ttl c"
  shows "make_request lib c w ''GET'' endpoint2 body2 params2 True st1
           = (Inr r, st1\<lparr>ticks := Suc (ticks st1)\<rparr>)"
proof -
  from make_request_stores [OF assms(1,2)] obtain e
    where e: "cache st1 (cache_key lib c ''GET'' endpoint params) = Some e" "data e = r"
    by blast
  with assms(4) have "clock w (ticks st1) - timestamp e < cache_ttl c" by simp
  with e assms(2,3) show ?thesis
    by (simp add: make_request_def cache_check_def)
qed

text \<open>
  C6. When the entry stored under the key of a cacheable GET call (caching enabled) is
  expired, that is, the clock minus its timestamp has reached the TTL, the lookup answers
  as if the key were absent and leaves the cache as it is, and the call dispatches to the
  session; afterwards the key holds the old entry, or the result of this call if it
  succeeded. (\<open>max_retries\<close> is a retry count, not negative.)
\<close>

theorem expired_entry_refetched:
  assumes "enable_cache c" and "0 \<le> max_retries c"
    and "cache st (cache_key lib c ''GET'' endpoint params) = Some e"
    and "cache_ttl c \<le> clock w (ticks st) - timestamp e"
  shows "fst (cache_check c w (cache_key lib c ''GET'' endpoint params) True st) = None
       \<and> cache (snd (cache_check c w (cache_key lib c ''GET'' endpoint params) True st)) = cache st
       \<and> sent st < sent (snd (make_request lib c w ''GET'' endpoint body params True st))
       \<and> (cache (snd (make_request lib c w ''GET'' endpoint body params True st))
            (cache_key lib c ''GET'' endpoint params) = Some e
          \<or> (\<exists>r ts. fst (make_request lib c w ''GET'' endpoint body params True st) = Inr r
                \<and> cache (snd (make_request lib c w ''GET'' endpoint body params True st))
                    (cache_key lib c ''GET'' endpoint params) = Some \<lparr>data = r, timestamp = ts\<rparr>))"
proof -
  let ?key = "cache_key lib c ''GET'' endpoint params"
  let ?st0 = "st\<lparr>ticks := Suc (ticks st)\<rparr>"
  let ?L = "attempt_loop c w ?key True (py_range (max_retries c + 1)) ?st0"
  have cc: "cache_check c w ?key True st = (None, ?st0)"
    using assms(3,4) by (simp add: cache_check_def)
  have ne: "fst ?L \<noteq> None"
    using assms(2) by (intro attempt_loop_not_exhausted) (simp_all add: py_range_Suc)
  then obtain res where res: "fst ?L = Some res" by blast
  have mr: "make_request lib c w ''GET'' endpoint body params True st = (res, snd ?L)"
    using cc res assms(1) by (cases ?L) (simp add: make_request_def)
  obtain k where k: "sent (snd ?L) = (if fst ?L = None then sent ?st0 + k else Suc (sent ?st0 + k))"
    using attempt_loop_trace [of "py_range (max_retries c + 1)" c w ?key True ?st0] by blast
  have sent: "sent st < sent (snd ?L)"
    using k ne by simp
  have ca: "cache (snd ?L) ?key = Some e
          \<or> (\<exists>r ts. res = Inr r \<and> cache (snd ?L) ?key = Some \<lparr>data = r, timestamp = ts\<rparr>)"
    using attempt_loop_cache [of c w ?key True "py_range (max_retries c + 1)" ?st0] res assms(3)
    by (cases res) simp_all
  show ?thesis
    using cc mr sent ca by simp
qed

lemma health_key_eq: "cache_key example_library example_client ''GET'' ''/health'' None = health_key"
  by (simp add: cache_key_def example_library_def example_client_def health_key_def)

theorem cached_result_served_witness:
  "make_request example_library example_client always_ok ''GET'' ''/health'' None None True fresh_state
     = (Inr (JObj [(''status'', JStr ''ok'')]), cached_state) \<and>
   clock always_ok (ticks cached_state) - 0 < cache_ttl example_client \<and>
   make_request example_library example_client always_ok ''GET'' ''/health'' None None True cached_state
     = (Inr (JObj [(''status'', JStr ''ok'')]), cached_state\<lparr>ticks := 2\<rparr>)"
proof -
  have h1: "make_request example_library example_client always_ok ''GET'' ''/health'' None None True
              fresh_state = (Inr (JObj [(''status'', JStr ''ok'')]), cached_state)"
    by (simp add: engine_defs example_defs always_ok_def ok_response_def cached_state_def
          health_key_def Let_def)
  have h2: "enable_cache example_client"
    by (simp add: example_client_def)
  have h3: "cache_key example_library example_client ''GET'' ''/health'' None
              = cache_key example_library example_client ''GET'' ''/health'' None"
    by simp
  have h4: "\<forall>e. cache cached_state (cache_key example_library example_client ''GET'' ''/health'' None)
                = Some e \<longrightarrow>
              clock always_ok (ticks cached_state) - timestamp e < cache_ttl example_client"
    by (simp add: health_key_eq cached_state_def always_ok_def example_client_def)
  have h5: "clock always_ok (ticks cached_state) - 0 < cache_ttl example_client"
    by (simp add: cached_state_def always_ok_def example_client_def)
  from cached_result_served [OF h1 h2 h3 h4, of None] h1 h5 show ?thesis
    by (simp add: cached_state_def)
qed

theorem expired_entry_refetched_witness:
  "cache stale_state health_key = Some \<lparr>data = JStr ''old'', timestamp = 0\<rparr> \<and>
   cache_ttl example_client \<le> clock always_ok (ticks stale_state) - 0 \<and>
   sent stale_state < sent (snd (make_request example_library example_client always_ok ''GET''
       ''/health'' None None True stale_state)) \<and>
   cache (snd (make_request example_library example_client always_ok ''GET''
       ''/health'' None None True stale_state)) health_key \<noteq> None"
proof -
  have h1: "enable_cache example_client" and h2: "0 \<le> max_retries example_client"
    by (simp_all add: example_client_def)
  have h3: "cache stale_state (cache_key example_library example_client ''GET'' ''/health'' None)
              = Some \<lparr>data = JStr ''old'', timestamp = 0\<rparr>"
    by (simp add: health_key_eq stale_state_def)
  have h4: "cache_ttl example_client
              \<le> clock always_ok (ticks stale_state) - timestamp \<lparr>data = JStr ''old'', timestamp = 0\<rparr>"
    by (simp add: stale_state_def always_ok_def example_client_def)
  from expired_entry_refetched [OF h1 h2 h3 h4, of None] h3 h4 show ?thesis
    by (auto simp: health_key_eq)
qed

section \<open>The cache key and the order of the parameters\<close>

lemma distinct_map_sort_key: "distinct (map f (sort_key f xs)) = distinct (map f xs)"
  by (induction xs) (simp_all add: distinct_insort_key)

lemma sort_key_fst_unique:
  assumes "distinct (map fst xs)" and "distinct (map fst ys)" and "set xs = set ys"
  shows "sort_key fst xs = sort_key fst ys"
proof (rule map_sorted_distinct_set_unique [where f = fst])
  show "inj_on fst (set (sort_key fst xs) \<union> set (sort_key fst ys))"
    using assms by (simp add: distinct_map)
  show "sorted (map fst (sort_key fst xs))" "sorted (map fst (sort_key fst ys))"
    by simp_all
  show "distinct (map fst (sort_key fst xs))" "distinct (map fst (sort_key fst ys))"
    using assms(1,2) by (simp_all add: distinct_map_sort_key)
  show "set (sort_key fst xs) = set (sort_key fst ys)"
    using assms(3) by simp
qed

lemma dumps_items_order:
  assumes "distinct (map fst p1)" and "distinct (map fst p2)" and "map_of p1 = map_of p2"
  shows "dumps enc (JObj p1) = dumps enc (JObj p2)"
proof -
  let ?f = "\<lambda>(k, v). (k, dumps enc v)"
  have s: "set p1 = set p2"
    using assms by (simp add: map_of_inject_set)
  have k: "map fst (map ?f p) = map fst p" for p
    by (induction p) auto
  have "sort_key fst (map ?f p1) = sort_key fst (map ?f p2)"
    by (rule sort_key_fst_unique) (use assms s in \<open>simp_all only: k set_map\<close>)
  then show ?thesis by simp
qed

text \<open>
  C9. The cache key is a function of the method, the URL and the query parameters, and the
  parameters enter it with their keys sorted: two parameter dicts with the same keys and
  values give the same key for the same method and URL, whatever the order in which their
  items were inserted.
\<close>

theorem cache_key_ignores_order:
  assumes "distinct (map fst p1)" and "distinct (map fst p2)" and "map_of p1 = map_of p2"
  shows "cache_key lib c method endpoint (Some p1) = cache_key lib c method endpoint (Some p2)"
  using dumps_items_order [OF assms] by (simp add: cache_key_def)

theorem cache_key_ignores_order_witness:
  "distinct (map fst [(''limit'', JNum 20), (''offset'', JNum 0)]) \<and>
   map_of [(''limit'', JNum 20), (''offset'', JNum 0)] = map_of [(''offset'', JNum 0), (''limit'', JNum 20)] \<and>
   cache_key example_library example_client ''GET'' ''/api/v1/research''
       (Some [(''limit'', JNum 20), (''offset'', JNum 0)]) =
   cache_key example_library example_client ''GET'' ''/api/v1/research''
       (Some [(''offset'', JNum 0), (''limit'', JNum 20)])"
proof -
  have h1: "distinct (map fst [(''limit'', JNum 20), (''offset'', JNum 0)])"
    and h2: "distinct (map fst [(''offset'', JNum 0), (''limit'', JNum 20)])"
    by simp_all
  have h3: "map_of [(''limit'', JNum 20), (''offset'', JNum 0)]
              = map_of [(''offset'', JNum 0), (''limit'', JNum 20)]"
    by (rule ext) simp
  from cache_key_ignores_order [OF h1 h2 h3] h1 h3 show ?thesis
    by blast
qed

section \<open>The two clients\<close>

lemma truncate_fields [simp]:
  "max_retries (client.truncate ac) = max_retries ac"
  "enable_cache (client.truncate ac) = enable_cache ac"
  "base_url (client.truncate ac) = base_url ac"
  "cache_ttl (client.truncate ac) = cache_ttl ac"
  by (simp_all add: client.truncate_def)

text \<open>
  On a transport that always answers and whose bodies always decode, the two
  \<open>_make_request\<close> agree once the session of the asynchronous client is open: same result
  or error, same cache, attempts, clock readings and delays.
\<close>

lemma async_raise_for_response_decoded:
  "json_body r = Inr v \<Longrightarrow> async_raise_for_response r = raise_for_response r"
  by (simp add: async_raise_for_response_def raise_for_response_def)

lemma raise_for_response_decoded_not_caught:
  "json_body r = Inr v \<Longrightarrow>
     \<not> is_ClientError (raise_for_response r) \<and> \<not> is_RequestException (raise_for_response r)"
  by (cases v) (simp_all add: raise_for_response_def is_ClientError_def is_RequestException_def)

lemma async_attempt_iter_decoded:
  assumes "\<forall>n. \<exists>r v. outcomes w n = Responds r \<and> json_body r = Inr v"
  shows "async_attempt_iter ac w key store a st = attempt_iter (client.truncate ac) w key store a st"
proof -
  from assms obtain r v where r: "outcomes w (sent st) = Responds r" "json_body r = Inr v"
    by blast
  show ?thesis
    using r async_raise_for_response_decoded [OF r(2)] raise_for_response_decoded_not_caught [OF r(2)]
    by (simp add: async_attempt_iter_def attempt_iter_def async_attempt_try_def attempt_try_def
          Let_def)
qed

lemma async_attempt_loop_decoded:
  assumes "\<forall>n. \<exists>r v. outcomes w n = Responds r \<and> json_body r = Inr v"
  shows "async_attempt_loop ac w key store xs st = attempt_loop (client.truncate ac) w key store xs st"
proof (induction xs arbitrary: st)
  case Nil
  show ?case by simp
next
  case (Cons a xs)
  show ?case
    by (simp add: async_attempt_iter_decoded [OF assms] Cons.IH
          split: prod.splits sum.splits flow.splits)
qed

lemma async_agrees_on_decoded_responses:
  assumes "session ac"
    and "\<forall>n. \<exists>r v. outcomes w n = Responds r \<and> json_body r = Inr v"
  shows "async_make_request lib ac w method endpoint body params use_cache st
           = make_request lib (client.truncate ac) w method endpoint body params use_cache st"
  using assms(1)
  by (simp add: async_make_request_def make_request_def async_attempt_loop_decoded [OF assms(2)]
        Let_def cong: option.case_cong prod.case_cong)

text \<open>
  C7. The two \<open>_make_request\<close> are to give the same result or the same
  \<open>FortitudeAPIError\<close> for the same request and the same transport outcomes. They do not
  when the body of an error response fails to decode: the blocking client catches
  \<open>json.JSONDecodeError\<close> and raises the "HTTP status: text" error, the asynchronous one
  catches only \<open>aiohttp.ContentTypeError\<close>, so a \<open>JSONDecodeError\<close> raised by
  \<open>response.json()\<close> leaves it as it is. For a 404 whose body is cut-off JSON the
  asynchronous client (session open) ends with the decoding exception itself, the blocking
  one with a \<open>FortitudeAPIError\<close>, whether the exception is the plain
  \<open>json.JSONDecodeError\<close> or the one of \<open>requests\<close>.
\<close>

theorem async_leaks_decode_error:
  "fst (async_make_request example_library example_async_client (always_responds malformed_404)
       ''GET'' ''/api/v1/research/42'' None None True fresh_state)
     = Inl (LibError \<lparr>classes = [JSONDecodeError], exn_str = ''Expecting value''\<rparr>) \<and>
   fst (make_request example_library (client.truncate example_async_client)
       (always_responds malformed_404) ''GET'' ''/api/v1/research/42'' None None True fresh_state)
     = Inl (FortitudeAPIError \<lparr>message = JStr ''HTTP 404: {\"message\": '',
             error_code = JNull, status_code = Some 404, request_id = JNull, details = JNull\<rparr>) \<and>
   fst (make_request example_library (client.truncate example_async_client)
       (always_responds malformed_404_requests) ''GET'' ''/api/v1/research/42'' None None True
       fresh_state)
     = Inl (FortitudeAPIError \<lparr>message = JStr ''HTTP 404: {\"message\": '',
             error_code = JNull, status_code = Some 404, request_id = JNull, details = JNull\<rparr>)"
  by (simp add: engine_defs example_defs async_make_request_def async_attempt_iter_def
        async_attempt_try_def async_raise_for_response_def is_ClientError_def
        example_async_client_def always_responds_def malformed_404_def malformed_404_requests_def
        client.truncate_def str_int_def str_nat.simps digit_char_def Let_def)

section \<open>Construction\<close>

lemma init_explicit_timeout:
  "arg_timeout a = Some t \<Longrightarrow> t \<noteq> 0 \<Longrightarrow> init lib env a = Inr c \<Longrightarrow> timeout c = t"
  by (auto simp: init_def truthy_int_def Let_def split: sum.splits option.splits if_splits)

lemma init_explicit_max_retries:
  "arg_max_retries a = Some m \<Longrightarrow> m \<noteq> 0 \<Longrightarrow> init lib env a = Inr c \<Longrightarrow> max_retries c = m"
  by (auto simp: init_def truthy_int_def Let_def split: sum.splits option.splits if_splits)

lemma init_explicit_base_url:
  "arg_base_url a = Some u \<Longrightarrow> u \<noteq> [] \<Longrightarrow> init lib env a = Inr c \<Longrightarrow>
     base_url c = rstrip CHR ''/'' u"
  by (auto simp: init_def truthy_str_def Let_def split: sum.splits option.splits if_splits)

lemma init_default_max_retries:
  "arg_max_retries a = None \<Longrightarrow> init lib env a = Inr c \<Longrightarrow>
     int_of_str lib (case env ''FORTITUDE_MAX_RETRIES'' of None \<Rightarrow> ''3'' | Some v \<Rightarrow> v)
       = Inr (max_retries c)"
  by (auto simp: init_def truthy_int_def getenv_def Let_def split: sum.splits option.splits if_splits)

text \<open>
  C8. The constructor is meant to take each setting from the argument when one is passed,
  else from the environment, else from the default. An argument of \<open>0\<close> is passed and yet
  not taken: \<open>FortitudeClient(api_key="k", max_retries=0)\<close> with no environment variable
  set gives a client with \<open>max_retries = 3\<close>.
\<close>

theorem explicit_zero_max_retries_overridden:
  "init example_library Map.empty
     \<lparr>arg_api_key = Some ''k'', arg_base_url = None, arg_timeout = None,
      arg_max_retries = Some 0, arg_enable_cache = False, arg_cache_ttl = 300\<rparr>
   = Inr \<lparr>api_key = ''k'', base_url = ''http://localhost:8080'', timeout = 30, max_retries = 3,
          enable_cache = False, cache_ttl = 300\<rparr>"
  by (simp add: init_def truthy_int_def truthy_str_def getenv_def rstrip_def
        example_library_def)

end
